theory Spec2Isabelle
  imports Main "HOL-Library.Sublist"
begin

section \<open>Strings and \<^verbatim>\<open>str.format\<close>\<close>

text \<open>
  The application (\<^verbatim>\<open>src/app/main.py\<close>) is one Flask route whose view renders a fixed
  HTML template with \<^verbatim>\<open>str.format\<close>. A Python \<^verbatim>\<open>str\<close> is modelled as a
  \<^typ>\<open>string\<close>, the list of its characters. The template is ASCII, so the same
  definitions describe the page as the bytes of its UTF-8 encoding when the message is
  read as the bytes of its encoding.

  \<^verbatim>\<open>str.format\<close> is library code. The part of it that a template with positional
  replacement fields exercises is written out below, as a scanner over the format string:
  literal text is copied, \<^verbatim>\<open>{{\<close> and \<^verbatim>\<open>}}\<close> stand for one brace, and a field
  \<^verbatim>\<open>{}\<close> or \<^verbatim>\<open>{\<close>\<open>n\<close>\<^verbatim>\<open>}\<close> is replaced by a positional argument. The exceptions
  Python raises are values of \<open>format_error\<close>. Fields with a conversion, a format
  specification, a keyword name, an attribute or an index, a nested field, or more than
  nine digits lie outside this fragment: the model answers \<open>Unsupported\<close> for them
  and says nothing about what Python does there.
\<close>

datatype format_error = ValueError | IndexError | Unsupported

text \<open>
  The automatic numbering state of the formatter: no field seen yet, automatic numbering
  with the next index, or explicit indices. Python refuses a format string that mixes
  the two.
\<close>

datatype auto_number = ANS_INIT | ANS_AUTO nat | ANS_MANUAL

text \<open>Where the scanner stands: in literal text, after one brace, or inside a field.\<close>

datatype markup = Literal | Opened | Closed | Field string

definition is_digit :: "char \<Rightarrow> bool" where
  "is_digit c = (c \<in> set ''0123456789'')"

definition digit_value :: "char \<Rightarrow> nat" where
  "digit_value c = of_char c - of_char (CHR ''0'')"

definition get_integer :: "string \<Rightarrow> nat" where
  "get_integer ds = foldl (\<lambda>acc d. acc * 10 + digit_value d) 0 ds"

definition get_arg :: "string list \<Rightarrow> nat \<Rightarrow> format_error + string" where
  "get_arg args i = (if i < length args then Inr (args ! i) else Inl IndexError)"

text \<open>
  The value of one replacement field and the numbering state after it. A \<^verbatim>\<open>str\<close>
  argument formatted with the empty format specification is the argument itself.
\<close>

definition get_field_object ::
  "auto_number \<Rightarrow> string \<Rightarrow> string list \<Rightarrow> format_error + (string \<times> auto_number)" where
  "get_field_object ans name args =
     (if name = [] then
        (case ans of
           ANS_MANUAL \<Rightarrow> Inl ValueError
         | ANS_INIT \<Rightarrow> map_sum id (\<lambda>s. (s, ANS_AUTO 1)) (get_arg args 0)
         | ANS_AUTO k \<Rightarrow> map_sum id (\<lambda>s. (s, ANS_AUTO (Suc k))) (get_arg args k))
      else if list_all is_digit name \<and> length name \<le> 9 then
        (case ans of
           ANS_AUTO k \<Rightarrow> Inl ValueError
         | _ \<Rightarrow> map_sum id (\<lambda>s. (s, ANS_MANUAL)) (get_arg args (get_integer name)))
      else Inl Unsupported)"

text \<open>Writing a piece of output in front of what the rest of the scan produces.\<close>

fun emit :: "string \<Rightarrow> format_error + string \<Rightarrow> format_error + string" where
  "emit s (Inr out) = Inr (s @ out)"
| "emit s (Inl e) = Inl e"

text \<open>
  The scan. At the end of the format string an open brace or an unfinished field is a
  \<^verbatim>\<open>ValueError\<close>, as is a single closing brace anywhere. The substituted argument is
  written as it is and is not scanned again.
\<close>

fun do_markup ::
  "markup \<Rightarrow> auto_number \<Rightarrow> string list \<Rightarrow> string \<Rightarrow> format_error + string" where
  "do_markup Literal ans args [] = Inr []"
| "do_markup Opened ans args [] = Inl ValueError"
| "do_markup Closed ans args [] = Inl ValueError"
| "do_markup (Field name) ans args [] = Inl ValueError"
| "do_markup Literal ans args (c # cs) =
     (if c = CHR ''{'' then do_markup Opened ans args cs
      else if c = CHR ''}'' then do_markup Closed ans args cs
      else emit [c] (do_markup Literal ans args cs))"
| "do_markup Opened ans args (c # cs) =
     (if c = CHR ''{'' then emit ''{'' (do_markup Literal ans args cs)
      else if c = CHR ''}'' then
        (case get_field_object ans [] args of
           Inl e \<Rightarrow> Inl e
         | Inr (s, ans') \<Rightarrow> emit s (do_markup Literal ans' args cs))
      else do_markup (Field [c]) ans args cs)"
| "do_markup Closed ans args (c # cs) =
     (if c = CHR ''}'' then emit ''}'' (do_markup Literal ans args cs)
      else Inl ValueError)"
| "do_markup (Field name) ans args (c # cs) =
     (if c = CHR ''}'' then
        (case get_field_object ans name args of
           Inl e \<Rightarrow> Inl e
         | Inr (s, ans') \<Rightarrow> emit s (do_markup Literal ans' args cs))
      else if c = CHR ''{'' then Inl Unsupported
      else do_markup (Field (name @ [c])) ans args cs)"

definition format_str :: "string \<Rightarrow> string list \<Rightarrow> format_error + string" where
  "format_str s args = do_markup Literal ANS_INIT args s"

section \<open>The renderer: \<^verbatim>\<open>page\<close>\<close>

text \<open>
  The triple-quoted literal of \<^verbatim>\<open>page\<close>, line by line. It starts with the line break
  after the opening quotes, the second line of the markup ends with a space, and the
  last line has no line break.
\<close>

definition html_template :: string where
  \<open>html_template =
     ''\<newline>'' @
     ''        <html>\<newline>'' @
     ''        <head lang> \<newline>'' @
     ''            <meta charset="utf-8">\<newline>'' @
     ''            <title>Index</title>\<newline>'' @
     ''        </head>\<newline>'' @
     ''        <body>\<newline>'' @
     ''            <div style='font-size:60px;'>\<newline>'' @
     ''            <center>\<newline>'' @
     ''                {0}<br>\<newline>'' @
     ''            </center>\<newline>'' @
     ''            </div>\<newline>'' @
     ''        </body>\<newline>'' @
     ''        </html>''\<close>

text \<open>\<^verbatim>\<open>page(message)\<close>: the template formatted with the message as its one argument.\<close>

definition page :: "string \<Rightarrow> format_error + string" where
  "page message = format_str html_template [message]"

text \<open>
  The text of the template before its replacement field and the text after it, cut out
  of the template at the braces.
\<close>

definition template_prefix :: string where
  "template_prefix = takeWhile (\<lambda>c. c \<noteq> CHR ''{'') html_template"

definition template_suffix :: string where
  "template_suffix = tl (dropWhile (\<lambda>c. c \<noteq> CHR ''}'') html_template)"

section \<open>The endpoint: \<^verbatim>\<open>get_page\<close> on the root path\<close>

text \<open>\<^verbatim>\<open>get_page()\<close> takes no argument: it renders a message written in its body.\<close>

definition get_page :: "format_error + string" where
  "get_page = (let message = ''Hello CGI!!! Welcome to the world of DevOps :)'' in page message)"

text \<open>
  What the application needs of Flask. A request carries its method, its path, its
  query string, its headers and its body. \<^verbatim>\<open>@app.route('/')\<close> enters one rule into the
  URL map of the application, for the method \<^verbatim>\<open>GET\<close>, with \<^verbatim>\<open>get_page\<close> as its view.
  A view that returns a \<^verbatim>\<open>str\<close> is answered with status 200 and that text as the body;
  a view that raises is an internal server error. Requests with another path or another
  method are not described at this level: \<open>Framework_Default\<close>.
\<close>

datatype py_error =
    NameError string
  | TypeError
  | AttributeError
  | RecursionError
  | FormatError format_error

datatype http_method = GET | HEAD | OPTIONS | POST | PUT | PATCH | DELETE

record request =
  req_method :: http_method
  req_path :: string
  query_string :: string
  req_headers :: "(string \<times> string) list"
  req_data :: string

datatype response =
    Response nat string
  | Internal_Server_Error py_error
  | Framework_Default

fun status_code :: "response \<Rightarrow> nat option" where
  "status_code (Response status body) = Some status"
| "status_code (Internal_Server_Error e) = Some 500"
| "status_code Framework_Default = None"

fun data :: "response \<Rightarrow> string option" where
  "data (Response status body) = Some body"
| "data (Internal_Server_Error e) = None"
| "data Framework_Default = None"

definition url_map :: "(string \<times> (format_error + string)) list" where
  "url_map = [(''/'', get_page)]"

definition dispatch_request :: "request \<Rightarrow> (format_error + string) option" where
  "dispatch_request req =
     (if req_method req = GET then map_of url_map (req_path req) else None)"

fun make_response :: "format_error + string \<Rightarrow> response" where
  "make_response (Inr rv) = Response 200 rv"
| "make_response (Inl e) = Internal_Server_Error (FormatError e)"

definition full_dispatch_request :: "request \<Rightarrow> response" where
  "full_dispatch_request req =
     (case dispatch_request req of
        None \<Rightarrow> Framework_Default
      | Some rv \<Rightarrow> make_response rv)"

section \<open>The program as Python runs it\<close>

text \<open>
  The definitions above read the two functions of \<^verbatim>\<open>main.py\<close> as mathematical
  functions. Whether a call reads or changes anything besides its argument is a question
  about how Python runs their bodies, so the bodies are also given as syntax, statement
  by statement as in the source, with an interpreter for the statements they are made
  of. The interpreter threads the state of the process: the global variables of the
  module, the Flask application object and the stack of request contexts. A name is
  looked up in the local variables and then in the globals (in the source a name that a
  body assigns is read only after the assignment). An assignment writes a local
  variable, or a global one after a \<^verbatim>\<open>global\<close> declaration. A call evaluates the
  function and the arguments, runs the body in a new frame and hands the state it
  leaves to the caller. The depth of calls is bounded, as Python bounds it by its
  recursion limit: a call with no depth left raises \<^verbatim>\<open>RecursionError\<close>.
\<close>

datatype expr =
    Const string
  | Name string
  | Call expr "expr list"
  | Format expr "expr list"

datatype stmt =
    Assign string expr
  | Global string
  | Return expr

datatype val = Str string | NoneV | Fn "string list" "stmt list" | App

text \<open>
  The application object holds the URL rules: the path of a rule, its methods and the
  view function registered for it.
\<close>

record flask =
  rules :: "(string \<times> http_method list \<times> val) list"

record py_state =
  globals :: "string \<rightharpoonup> val"
  app_obj :: flask
  ctx_stack :: "request list"

fun is_str :: "val \<Rightarrow> bool" where
  "is_str (Str s) = True"
| "is_str v = False"

fun str_of :: "val \<Rightarrow> string" where
  "str_of (Str s) = s"
| "str_of v = []"

text \<open>
  The method \<^verbatim>\<open>format\<close> of a string, for string arguments (arguments of another type
  are outside the fragment of the formatter written out here). Another value has no
  such method.
\<close>

fun str_format :: "val \<Rightarrow> val list \<Rightarrow> py_error + val" where
  "str_format (Str t) vs =
     (if list_all is_str vs then
        (case format_str t (map str_of vs) of
           Inl e \<Rightarrow> Inl (FormatError e)
         | Inr out \<Rightarrow> Inr (Str out))
      else Inl (FormatError Unsupported))"
| "str_format v vs = Inl AttributeError"

fun eval :: "nat \<Rightarrow> py_state \<Rightarrow> (string \<rightharpoonup> val) \<Rightarrow> expr \<Rightarrow> (py_error + val) \<times> py_state"
and eval_list ::
  "nat \<Rightarrow> py_state \<Rightarrow> (string \<rightharpoonup> val) \<Rightarrow> expr list \<Rightarrow> (py_error + val list) \<times> py_state"
and call :: "nat \<Rightarrow> py_state \<Rightarrow> val \<Rightarrow> val list \<Rightarrow> (py_error + val) \<times> py_state"
and exec ::
  "nat \<Rightarrow> py_state \<Rightarrow> (string \<rightharpoonup> val) \<Rightarrow> string list \<Rightarrow> stmt list \<Rightarrow> (py_error + val) \<times> py_state"
where
  "eval d s l (Const c) = (Inr (Str c), s)"
| "eval d s l (Name x) =
     (case l x of
        Some v \<Rightarrow> (Inr v, s)
      | None \<Rightarrow>
          (case globals s x of
             Some v \<Rightarrow> (Inr v, s)
           | None \<Rightarrow> (Inl (NameError x), s)))"
| "eval d s l (Format e args) =
     (case eval d s l e of
        (Inl err, s1) \<Rightarrow> (Inl err, s1)
      | (Inr v, s1) \<Rightarrow>
          (case eval_list d s1 l args of
             (Inl err, s2) \<Rightarrow> (Inl err, s2)
           | (Inr vs, s2) \<Rightarrow> (str_format v vs, s2)))"
| "eval d s l (Call f args) =
     (case eval d s l f of
        (Inl err, s1) \<Rightarrow> (Inl err, s1)
      | (Inr v, s1) \<Rightarrow>
          (case eval_list d s1 l args of
             (Inl err, s2) \<Rightarrow> (Inl err, s2)
           | (Inr vs, s2) \<Rightarrow> call d s2 v vs))"
| "eval_list d s l [] = (Inr [], s)"
| "eval_list d s l (e # es) =
     (case eval d s l e of
        (Inl err, s1) \<Rightarrow> (Inl err, s1)
      | (Inr v, s1) \<Rightarrow>
          (case eval_list d s1 l es of
             (Inl err, s2) \<Rightarrow> (Inl err, s2)
           | (Inr vs, s2) \<Rightarrow> (Inr (v # vs), s2)))"
| "call d s (Fn params body) vs =
     (if length params \<noteq> length vs then (Inl TypeError, s)
      else
        (case d of
           0 \<Rightarrow> (Inl RecursionError, s)
         | Suc d' \<Rightarrow> exec d' s (map_of (zip params vs)) [] body))"
| "call d s (Str t) vs = (Inl TypeError, s)"
| "call d s NoneV vs = (Inl TypeError, s)"
| "call d s App vs = (Inl TypeError, s)"
| "exec d s l g [] = (Inr NoneV, s)"
| "exec d s l g (Return e # rest) = eval d s l e"
| "exec d s l g (Global x # rest) = exec d s l (x # g) rest"
| "exec d s l g (Assign x e # rest) =
     (case eval d s l e of
        (Inl err, s1) \<Rightarrow> (Inl err, s1)
      | (Inr v, s1) \<Rightarrow>
          (if x \<in> set g then exec d (s1\<lparr>globals := (globals s1)(x \<mapsto> v)\<rparr>) l g rest
           else exec d s1 (l(x \<mapsto> v)) g rest))"

text \<open>
  The bodies of the two functions of \<^verbatim>\<open>main.py\<close>, and the function objects that the two
  \<^verbatim>\<open>def\<close> statements make of them.
\<close>

definition page_body :: "stmt list" where
  "page_body =
     [Assign ''html'' (Format (Const html_template) [Name ''message'']),
      Return (Name ''html'')]"

definition page_fn :: val where
  "page_fn = Fn [''message''] page_body"

definition get_page_body :: "stmt list" where
  "get_page_body =
     [Assign ''message'' (Const ''Hello CGI!!! Welcome to the world of DevOps :)''),
      Return (Call (Name ''page'') [Name ''message''])]"

definition get_page_fn :: val where
  "get_page_fn = Fn [] get_page_body"

text \<open>
  The state after the module has been loaded: \<^verbatim>\<open>app = Flask(__name__)\<close> makes the
  application object and binds it, \<^verbatim>\<open>def page\<close> binds the first function, and
  \<^verbatim>\<open>@app.route('/')\<close> over \<^verbatim>\<open>def get_page\<close> enters the rule for the root path with
  the second function as its view (for \<^verbatim>\<open>GET\<close>, to which Flask adds \<^verbatim>\<open>HEAD\<close> and
  \<^verbatim>\<open>OPTIONS\<close>) and binds it. The rule for static files that Flask enters by itself
  does not match the root path and is left out.
\<close>

definition add_url_rule :: "string \<Rightarrow> val \<Rightarrow> py_state \<Rightarrow> py_state" where
  "add_url_rule rule view s =
     s\<lparr>app_obj := (app_obj s)\<lparr>rules := rules (app_obj s) @ [(rule, [GET, HEAD, OPTIONS], view)]\<rparr>\<rparr>"

definition bind :: "string \<Rightarrow> val \<Rightarrow> py_state \<Rightarrow> py_state" where
  "bind x v s = s\<lparr>globals := (globals s)(x \<mapsto> v)\<rparr>"

definition main_module :: py_state where
  "main_module =
     (let s0 = \<lparr>globals = Map.empty, app_obj = \<lparr>rules = []\<rparr>, ctx_stack = []\<rparr>;
          s1 = bind ''app'' App s0;
          s2 = bind ''page'' page_fn s1;
          s3 = bind ''get_page'' get_page_fn (add_url_rule ''/'' get_page_fn s2)
      in s3)"

text \<open>
  One request through the application: the request context is pushed, the rule for the
  path is looked up in the application object, the view is called, its return value
  becomes the response, and the context is popped. A view that returns a string is
  answered with status 200 and that string as the body, without the body for \<^verbatim>\<open>HEAD\<close>;
  a view that raises, or returns something that is no string, is an internal server
  error. Where no rule matches the path or the method, and for \<^verbatim>\<open>OPTIONS\<close>, Flask
  answers by itself without calling a view. \<open>depth\<close> is the depth of calls left to
  the view.
\<close>

definition dispatch :: "nat \<Rightarrow> py_state \<Rightarrow> request \<Rightarrow> response \<times> py_state" where
  "dispatch depth s req =
     (case map_of (rules (app_obj s)) (req_path req) of
        None \<Rightarrow> (Framework_Default, s)
      | Some (methods, view) \<Rightarrow>
          (if req_method req \<notin> set methods \<or> req_method req = OPTIONS
           then (Framework_Default, s)
           else
             (case call depth s view [] of
                (Inl err, s') \<Rightarrow> (Internal_Server_Error err, s')
              | (Inr (Str body), s') \<Rightarrow>
                  (Response 200 (if req_method req = HEAD then [] else body), s')
              | (Inr v, s') \<Rightarrow> (Internal_Server_Error TypeError, s'))))"

definition wsgi_app :: "nat \<Rightarrow> py_state \<Rightarrow> request \<Rightarrow> response \<times> py_state" where
  "wsgi_app depth s req =
     (case dispatch depth (s\<lparr>ctx_stack := req # ctx_stack s\<rparr>) req of
        (resp, s') \<Rightarrow> (resp, s'\<lparr>ctx_stack := tl (ctx_stack s')\<rparr>))"

text \<open>A sequence of requests, each answered in the state the one before it left.\<close>

fun serve :: "nat \<Rightarrow> py_state \<Rightarrow> request list \<Rightarrow> response list \<times> py_state" where
  "serve depth s [] = ([], s)"
| "serve depth s (req # reqs) =
     (case wsgi_app depth s req of
        (resp, s') \<Rightarrow>
          (case serve depth s' reqs of (resps, s'') \<Rightarrow> (resp # resps, s'')))"

text \<open>
  The states in which the code of the module is in place: the name \<^verbatim>\<open>page\<close> is bound
  to its function and the application object is as loading the module made it. The
  other global variables and the stack of request contexts are arbitrary.
\<close>

definition loaded :: "py_state \<Rightarrow> bool" where
  "loaded s = (globals s ''page'' = Some page_fn \<and> app_obj s = app_obj main_module)"

text \<open>
  A function that counts its calls in a global variable, to compare with: it is not
  part of the application.
\<close>

definition counting_fn :: val where
  "counting_fn =
     Fn [] [Global ''hits'',
            Assign ''hits'' (Format (Const ''{0}+'') [Name ''hits'']),
            Return (Name ''hits'')]"

section \<open>What formatting the template computes\<close>

text \<open>The two pieces of the template, written out.\<close>

lemma template_prefix_eq:
  \<open>template_prefix =
     ''\<newline>'' @
     ''        <html>\<newline>'' @
     ''        <head lang> \<newline>'' @
     ''            <meta charset="utf-8">\<newline>'' @
     ''            <title>Index</title>\<newline>'' @
     ''        </head>\<newline>'' @
     ''        <body>\<newline>'' @
     ''            <div style='font-size:60px;'>\<newline>'' @
     ''            <center>\<newline>'' @
     ''                ''\<close>
  by (simp add: template_prefix_def html_template_def)

lemma template_suffix_eq:
  \<open>template_suffix =
     ''<br>\<newline>'' @
     ''            </center>\<newline>'' @
     ''            </div>\<newline>'' @
     ''        </body>\<newline>'' @
     ''        </html>''\<close>
  by (simp add: template_suffix_def html_template_def)

lemma html_template_split: "html_template = template_prefix @ ''{0}'' @ template_suffix"
  by (simp add: template_prefix_def template_suffix_def html_template_def)

text \<open>
  The scanner run on the template with a message that is not known: it copies the text
  before the field, reads the field \<^verbatim>\<open>{0}\<close>, writes the message and copies the rest.
\<close>

lemma page_eq: "page M = Inr (template_prefix @ M @ template_suffix)"
  by (simp add: page_def format_str_def html_template_def get_field_object_def
      is_digit_def get_integer_def digit_value_def get_arg_def
      template_prefix_def template_suffix_def)

lemma get_page_eq:
  "get_page =
     Inr (template_prefix @ ''Hello CGI!!! Welcome to the world of DevOps :)'' @ template_suffix)"
  by (simp add: get_page_def page_eq)

lemma root_get:
  "req_method req = GET \<Longrightarrow> req_path req = ''/'' \<Longrightarrow>
   full_dispatch_request req =
     Response 200
       (template_prefix @ ''Hello CGI!!! Welcome to the world of DevOps :)'' @ template_suffix)"
  by (simp add: full_dispatch_request_def dispatch_request_def url_map_def get_page_eq)

text \<open>
  Running the bodies. A call of \<open>page_fn\<close> evaluates the template literal and the
  parameter, formats, binds the local variable and returns it; a call of \<open>get_page_fn\<close>
  binds its local variable, finds \<^verbatim>\<open>page\<close> among the globals and calls it.
\<close>

lemma call_page:
  "call (Suc d) s page_fn [Str M] = (Inr (Str (template_prefix @ M @ template_suffix)), s)"
proof -
  have "format_str html_template [M] = Inr (template_prefix @ M @ template_suffix)"
    using page_eq [of M] by (simp only: page_def)
  then show ?thesis
    by (simp add: page_fn_def page_body_def)
qed

lemma call_get_page:
  assumes "globals s ''page'' = Some page_fn"
  shows "call (Suc (Suc d)) s get_page_fn [] =
    (Inr (Str (template_prefix @ ''Hello CGI!!! Welcome to the world of DevOps :)'' @
       template_suffix)), s)"
proof -
  let ?l = "[''message'' \<mapsto> Str ''Hello CGI!!! Welcome to the world of DevOps :)'']"
  have "call (Suc (Suc d)) s get_page_fn [] =
      eval (Suc d) s ?l (Call (Name ''page'') [Name ''message''])"
    by (simp add: get_page_fn_def get_page_body_def del: eval.simps(4))
  also have "\<dots> = call (Suc d) s page_fn [Str ''Hello CGI!!! Welcome to the world of DevOps :)'']"
    using assms by (simp del: call.simps)
  also have "\<dots> =
      (Inr (Str (template_prefix @ ''Hello CGI!!! Welcome to the world of DevOps :)'' @
         template_suffix)), s)"
    by (rule call_page)
  finally show ?thesis .
qed

text \<open>
  The interpreter does let a body read and write the globals: the counting function
  returns what it finds there and leaves another state behind.
\<close>

lemma call_counting_fn:
  "globals s ''hits'' = Some (Str h) \<Longrightarrow>
   call (Suc d) s counting_fn [] =
     (Inr (Str (h @ ''+'')), s\<lparr>globals := (globals s)(''hits'' \<mapsto> Str (h @ ''+''))\<rparr>)"
  by (simp add: counting_fn_def format_str_def get_field_object_def
      is_digit_def get_integer_def digit_value_def get_arg_def)

lemma loaded_main_module: "loaded main_module"
  by (simp add: loaded_def main_module_def bind_def add_url_rule_def)

lemma rules_main_module:
  "rules (app_obj main_module) = [(''/'', [GET, HEAD, OPTIONS], get_page_fn)]"
  by (simp add: main_module_def bind_def add_url_rule_def)

lemma dispatch_loaded:
  assumes "globals s ''page'' = Some page_fn" and "app_obj s = app_obj main_module"
  shows "snd (dispatch (Suc (Suc d)) s req) = s"
  using assms
  by (simp add: dispatch_def rules_main_module call_get_page del: call.simps)

lemma wsgi_app_state:
  assumes "loaded s"
  shows "snd (wsgi_app (Suc (Suc d)) s req) = s"
proof -
  let ?s1 = "s\<lparr>ctx_stack := req # ctx_stack s\<rparr>"
  have "globals ?s1 ''page'' = Some page_fn" and "app_obj ?s1 = app_obj main_module"
    using assms by (simp_all add: loaded_def)
  then have "snd (dispatch (Suc (Suc d)) ?s1 req) = ?s1"
    by (rule dispatch_loaded)
  then show ?thesis
    by (simp add: wsgi_app_def case_prod_beta)
qed

lemma wsgi_app_root:
  assumes "loaded s" and "req_method req = GET" and "req_path req = ''/''"
  shows "fst (wsgi_app (Suc (Suc d)) s req) =
    Response 200
      (template_prefix @ ''Hello CGI!!! Welcome to the world of DevOps :)'' @ template_suffix)"
proof -
  let ?s1 = "s\<lparr>ctx_stack := req # ctx_stack s\<rparr>"
  have g: "globals ?s1 ''page'' = Some page_fn" and a: "app_obj ?s1 = app_obj main_module"
    using assms(1) by (simp_all add: loaded_def)
  have "fst (dispatch (Suc (Suc d)) ?s1 req) =
      Response 200
        (template_prefix @ ''Hello CGI!!! Welcome to the world of DevOps :)'' @ template_suffix)"
    using assms(2,3) a
    by (simp add: dispatch_def rules_main_module call_get_page [OF g] del: call.simps)
  then show ?thesis
    by (simp add: wsgi_app_def case_prod_beta)
qed

text \<open>On a GET request to the root path the two readings of the endpoint agree.\<close>

lemma wsgi_app_full_dispatch_request:
  assumes "loaded s" and "req_method req = GET" and "req_path req = ''/''"
  shows "fst (wsgi_app (Suc (Suc d)) s req) = full_dispatch_request req"
  by (simp only: wsgi_app_root [OF assms] root_get [OF assms(2,3)])

lemma serve_state: "loaded s \<Longrightarrow> snd (serve (Suc (Suc d)) s reqs) = s"
proof (induction reqs)
  case Nil
  show ?case by simp
next
  case (Cons r reqs)
  have "snd (wsgi_app (Suc (Suc d)) s r) = s"
    using Cons.prems by (rule wsgi_app_state)
  then show ?case
    using Cons.IH [OF Cons.prems] by (simp add: case_prod_beta)
qed

lemma serve_append:
  "loaded s \<Longrightarrow>
   fst (serve (Suc (Suc d)) s (xs @ ys)) =
     fst (serve (Suc (Suc d)) s xs) @ fst (serve (Suc (Suc d)) s ys)"
proof (induction xs)
  case Nil
  show ?case by simp
next
  case (Cons r xs)
  have "snd (wsgi_app (Suc (Suc d)) s r) = s"
    using Cons.prems by (rule wsgi_app_state)
  then show ?case
    using Cons.IH [OF Cons.prems] by (simp add: case_prod_beta)
qed

lemma serve_roots:
  assumes "loaded s"
  shows "\<forall>r \<in> set reqs. req_method r = GET \<and> req_path r = ''/'' \<Longrightarrow>
   fst (serve (Suc (Suc d)) s reqs) =
     replicate (length reqs)
       (Response 200
         (template_prefix @ ''Hello CGI!!! Welcome to the world of DevOps :)'' @ template_suffix))"
proof (induction reqs)
  case Nil
  show ?case by simp
next
  case (Cons r reqs)
  have r: "req_method r = GET" "req_path r = ''/''"
    using Cons.prems by simp_all
  have rest: "\<forall>r \<in> set reqs. req_method r = GET \<and> req_path r = ''/''"
    using Cons.prems by simp
  have st: "snd (wsgi_app (Suc (Suc d)) s r) = s"
    using assms by (rule wsgi_app_state)
  have "fst (serve (Suc (Suc d)) s (r # reqs)) =
      fst (wsgi_app (Suc (Suc d)) s r) # fst (serve (Suc (Suc d)) s reqs)"
    using st by (simp add: case_prod_beta)
  then show ?case
    by (simp only: wsgi_app_root [OF assms r] Cons.IH [OF rest] length_Cons replicate_Suc)
qed

section \<open>The claims\<close>

text \<open>
  C1. A GET request to the root path, whatever its query string, headers and body, is
  answered with a body that is exactly the page that \<open>page\<close> returns for the message
  \<^verbatim>\<open>Hello CGI!!! Welcome to the world of DevOps :)\<close>. The view calls \<open>page\<close> with that
  literal: the request is no argument of it.
\<close>

theorem get_root_body_is_rendered_message:
  "req_method req = GET \<Longrightarrow> req_path req = ''/'' \<Longrightarrow>
   get_page = page ''Hello CGI!!! Welcome to the world of DevOps :)'' \<and>
   (\<exists>body. page ''Hello CGI!!! Welcome to the world of DevOps :)'' = Inr body
     \<and> data (full_dispatch_request req) = Some body)"
  by (simp add: root_get page_eq get_page_def)

theorem get_root_body_is_rendered_message_witness:
  "get_page = page ''Hello CGI!!! Welcome to the world of DevOps :)'' \<and>
   (\<exists>body. page ''Hello CGI!!! Welcome to the world of DevOps :)'' = Inr body
     \<and> data (full_dispatch_request
          \<lparr>req_method = GET, req_path = ''/'', query_string = ''lang=en'',
           req_headers = [(''Accept'', ''text/html'')], req_data = ''x''\<rparr>) = Some body)"
proof -
  let ?req = "\<lparr>req_method = GET, req_path = ''/'', query_string = ''lang=en'',
           req_headers = [(''Accept'', ''text/html'')], req_data = ''x''\<rparr>"
  have "req_method ?req = GET" and "req_path ?req = ''/''"
    by simp_all
  then show ?thesis
    by (rule get_root_body_is_rendered_message)
qed

text \<open>
  C2. For every message \<open>M\<close> the page is one fixed skeleton around \<open>M\<close>: no doctype, an
  \<^verbatim>\<open>html\<close> element with a \<^verbatim>\<open>head\<close> (the UTF-8 charset \<^verbatim>\<open>meta\<close> tag and the title
  \<^verbatim>\<open>Index\<close>) and a \<^verbatim>\<open>body\<close> holding a \<^verbatim>\<open>div\<close> of font size 60px around a \<^verbatim>\<open>center\<close>
  element. \<open>M\<close> stands in it once, as it is, and \<^verbatim>\<open><br>\<close> comes right after it.
\<close>

theorem page_skeleton:
  \<open>page M = Inr (
     ''\<newline>'' @
     ''        <html>\<newline>'' @
     ''        <head lang> \<newline>'' @
     ''            <meta charset="utf-8">\<newline>'' @
     ''            <title>Index</title>\<newline>'' @
     ''        </head>\<newline>'' @
     ''        <body>\<newline>'' @
     ''            <div style='font-size:60px;'>\<newline>'' @
     ''            <center>\<newline>'' @
     ''                '' @ M @ ''<br>'' @ ''\<newline>'' @
     ''            </center>\<newline>'' @
     ''            </div>\<newline>'' @
     ''        </body>\<newline>'' @
     ''        </html>'')\<close>
  unfolding page_eq template_prefix_eq template_suffix_eq by simp

text \<open>
  C3. A GET request to the root path is answered with status 200: the view returns a
  page and raises nothing, so the answer is never the internal server error.
\<close>

theorem get_root_status_200:
  "req_method req = GET \<Longrightarrow> req_path req = ''/'' \<Longrightarrow>
   status_code (full_dispatch_request req) = Some 200"
  by (simp add: root_get)

theorem get_root_status_200_witness:
  "status_code (full_dispatch_request
      \<lparr>req_method = GET, req_path = ''/'', query_string = '''',
       req_headers = [], req_data = ''''\<rparr>) = Some 200"
proof -
  let ?req = "\<lparr>req_method = GET, req_path = ''/'', query_string = '''',
       req_headers = [], req_data = ''''\<rparr>"
  have "req_method ?req = GET" and "req_path ?req = ''/''"
    by simp_all
  then show ?thesis
    by (rule get_root_status_200)
qed

text \<open>
  C4. For every message \<open>M\<close>, of any length and with any characters (markup, braces,
  ampersands), the page contains \<open>M\<close> itself as a contiguous piece: nothing is escaped,
  removed or cut.
\<close>

theorem page_contains_message: "\<exists>p. page M = Inr p \<and> sublist M p"
  unfolding page_eq sublist_def by blast

text \<open>
  C5. The page is a function of the message alone, and rendering has no side effect.
  Run as Python runs it, a call of \<open>page\<close> with the message \<open>M\<close> gives the same result
  in any two states of the process (\<open>s1\<close> and \<open>s2\<close>: any global variables, any
  application object, any request contexts) and at any depth of calls that leaves room
  for the call; it hands back the state it was called in; and its result is the page
  that the function \<open>page\<close> of the first part gives for \<open>M\<close>, never an exception.
\<close>

theorem page_deterministic:
  "fst (call (Suc d1) s1 page_fn [Str M]) = fst (call (Suc d2) s2 page_fn [Str M])
   \<and> snd (call (Suc d1) s1 page_fn [Str M]) = s1
   \<and> (\<exists>p. page M = Inr p \<and> fst (call (Suc d1) s1 page_fn [Str M]) = Inr (Str p))"
  by (simp add: call_page page_eq)

text \<open>
  C6. \<open>page\<close> raises for no message: it always returns a page. For the empty message
  the page is the template with nothing in the place of the field.
\<close>

theorem page_total:
  \<open>(\<exists>p. page M = Inr p) \<and>
   page '''' = Inr (
     ''\<newline>'' @
     ''        <html>\<newline>'' @
     ''        <head lang> \<newline>'' @
     ''            <meta charset="utf-8">\<newline>'' @
     ''            <title>Index</title>\<newline>'' @
     ''        </head>\<newline>'' @
     ''        <body>\<newline>'' @
     ''            <div style='font-size:60px;'>\<newline>'' @
     ''            <center>\<newline>'' @
     ''                <br>\<newline>'' @
     ''            </center>\<newline>'' @
     ''            </div>\<newline>'' @
     ''        </body>\<newline>'' @
     ''        </html>'')\<close>
  unfolding page_eq template_prefix_eq template_suffix_eq by simp

text \<open>
  C7. The endpoint is stateless and idempotent. Let \<open>s\<close> be any state of the process in
  which the code of the module is in place (\<open>loaded\<close>), whatever else its global
  variables and its request contexts hold, and let the view have room for its two
  nested calls. After any requests \<open>history\<close>, of any method and path, a run of GET
  requests to the root path is answered with one and the same response each time:
  status 200 with the page of \<open>get_page\<close> as body, which depends on nothing in \<open>s\<close>.
  The state after all these requests is \<open>s\<close> itself: no request has changed a global
  variable, the application object or the request contexts.
\<close>

theorem get_root_stateless_idempotent:
  assumes "loaded s" and "2 \<le> depth"
    and "\<forall>r \<in> set reqs. req_method r = GET \<and> req_path r = ''/''"
  shows "\<exists>body. get_page = Inr body
    \<and> fst (serve depth s (history @ reqs)) =
        fst (serve depth s history) @ replicate (length reqs) (Response 200 body)
    \<and> snd (serve depth s (history @ reqs)) = s"
proof -
  obtain d where d: "depth = Suc (Suc d)"
    using assms(2) by (metis add_2_eq_Suc le_Suc_ex)
  show ?thesis
    unfolding d
  proof (intro exI conjI)
    show "get_page =
        Inr (template_prefix @ ''Hello CGI!!! Welcome to the world of DevOps :)'' @
          template_suffix)"
      by (rule get_page_eq)
    show "fst (serve (Suc (Suc d)) s (history @ reqs)) =
        fst (serve (Suc (Suc d)) s history) @
        replicate (length reqs)
          (Response 200
            (template_prefix @ ''Hello CGI!!! Welcome to the world of DevOps :)'' @
              template_suffix))"
      by (simp only: serve_append [OF assms(1)] serve_roots [OF assms(1,3)])
    show "snd (serve (Suc (Suc d)) s (history @ reqs)) = s"
      using assms(1) by (rule serve_state)
  qed
qed

theorem get_root_stateless_idempotent_witness:
  "\<exists>body. get_page = Inr body
    \<and> fst (serve 1000 (bind ''visits'' (Str ''41'') main_module)
         ([\<lparr>req_method = POST, req_path = ''/login'', query_string = '''',
            req_headers = [], req_data = ''user=a''\<rparr>,
           \<lparr>req_method = HEAD, req_path = ''/'', query_string = '''',
            req_headers = [], req_data = ''''\<rparr>] @
          [\<lparr>req_method = GET, req_path = ''/'', query_string = '''',
            req_headers = [], req_data = ''''\<rparr>,
           \<lparr>req_method = GET, req_path = ''/'', query_string = ''q=1'',
            req_headers = [(''Cookie'', ''k=v'')], req_data = ''''\<rparr>])) =
        fst (serve 1000 (bind ''visits'' (Str ''41'') main_module)
          [\<lparr>req_method = POST, req_path = ''/login'', query_string = '''',
            req_headers = [], req_data = ''user=a''\<rparr>,
           \<lparr>req_method = HEAD, req_path = ''/'', query_string = '''',
            req_headers = [], req_data = ''''\<rparr>]) @
        replicate
          (length
            [\<lparr>req_method = GET, req_path = ''/'', query_string = '''',
              req_headers = [], req_data = ''''\<rparr>,
             \<lparr>req_method = GET, req_path = ''/'', query_string = ''q=1'',
              req_headers = [(''Cookie'', ''k=v'')], req_data = ''''\<rparr>])
          (Response 200 body)
    \<and> snd (serve 1000 (bind ''visits'' (Str ''41'') main_module)
         ([\<lparr>req_method = POST, req_path = ''/login'', query_string = '''',
            req_headers = [], req_data = ''user=a''\<rparr>,
           \<lparr>req_method = HEAD, req_path = ''/'', query_string = '''',
            req_headers = [], req_data = ''''\<rparr>] @
          [\<lparr>req_method = GET, req_path = ''/'', query_string = '''',
            req_headers = [], req_data = ''''\<rparr>,
           \<lparr>req_method = GET, req_path = ''/'', query_string = ''q=1'',
            req_headers = [(''Cookie'', ''k=v'')], req_data = ''''\<rparr>])) =
        bind ''visits'' (Str ''41'') main_module"
proof -
  have "loaded (bind ''visits'' (Str ''41'') main_module)"
    by (simp add: loaded_def main_module_def bind_def add_url_rule_def)
  moreover have "(2 :: nat) \<le> 1000"
    by simp
  moreover have "\<forall>r \<in> set
      [\<lparr>req_method = GET, req_path = ''/'', query_string = '''',
         req_headers = [], req_data = ''''\<rparr>,
       \<lparr>req_method = GET, req_path = ''/'', query_string = ''q=1'',
         req_headers = [(''Cookie'', ''k=v'')], req_data = ''''\<rparr>].
      req_method r = GET \<and> req_path r = ''/''"
    by simp
  ultimately show ?thesis
    by (rule get_root_stateless_idempotent)
qed

text \<open>
  C8. The page is the text of the template before the field, then the message, then
  the text of the template after the field, and the two pieces do not depend on the
  message. The first piece starts with a line break and a space, so no page starts with
  \<^verbatim>\<open><html>\<close>, and neither does the page that \<open>get_page\<close> returns.
\<close>

theorem page_prefix_message_suffix:
  "page M = Inr (template_prefix @ M @ template_suffix)
   \<and> prefix [CHR ''\<newline>'', CHR '' ''] template_prefix
   \<and> \<not> prefix ''<html>'' (template_prefix @ M @ template_suffix)
   \<and> (\<exists>body. get_page = Inr body \<and> \<not> prefix ''<html>'' body)"
  by (simp add: page_eq get_page_eq) (simp add: template_prefix_eq)

text \<open>
  C9. \<open>page\<close> is injective: two messages with the same page are the same message.
\<close>

theorem page_injective: "page M1 = page M2 \<Longrightarrow> M1 = M2"
  by (simp add: page_eq)

theorem page_injective_witness:
  "page ''a<b'' = page ''a<b'' \<and> ''a<b'' = ''a<b'' \<and> page ''a'' \<noteq> page ''b''"
proof -
  have "page ''a'' = page ''b'' \<Longrightarrow> ''a'' = ''b''"
    by (rule page_injective)
  then have "page ''a'' \<noteq> page ''b''"
    by auto
  moreover have "page ''a<b'' = page ''a<b'' \<Longrightarrow> ''a<b'' = ''a<b''"
    by (rule page_injective)
  ultimately show ?thesis
    by simp
qed

text \<open>
  C10. The length of the page is the length of the message plus a constant: the length
  of the template without its field \<^verbatim>\<open>{0}\<close>, which is 292.
\<close>

theorem page_length:
  "\<exists>p. page M = Inr p \<and> length p = length M + (length html_template - length ''{0}'')
     \<and> length html_template - length ''{0}'' = 292"
  by (simp add: page_eq) (simp add: template_prefix_eq template_suffix_eq html_template_def)

end
